theory Spec2Isabelle
  imports Main
begin

section \<open>Google contacts provider (inbox/server/util/google\_contacts.py)\<close>

text \<open>
  A shallow embedding of \<^verbatim>\<open>GoogleContactsProvider\<close>: the entry parser
  \<^verbatim>\<open>_parse_contact_result\<close>, the client factory \<^verbatim>\<open>_get_google_client\<close> and the
  generator \<^verbatim>\<open>get_contacts\<close>. Exceptions are values of a sum type, the logger and the
  remote fetch are an explicit state that every operation takes and returns, and the
  generator is a state machine advanced by \<^verbatim>\<open>next()\<close>.
\<close>

subsection \<open>Exceptions, remote entries, local records\<close>

datatype exn = AttributeError | ValueError | OverflowError | BadAuthentication | RequestError

text \<open>An XML element with an optional text node (\<^verbatim>\<open>entry.id\<close>, \<^verbatim>\<open>entry.updated\<close>,
  \<^verbatim>\<open>entry.name.full_name\<close>); \<^verbatim>\<open>text_of\<close> is its \<^verbatim>\<open>.text\<close>.\<close>

record text_elem =
  text_of :: "string option"

record name_elem =
  full_name :: "text_elem option"

text \<open>One email of an entry; \<^verbatim>\<open>primary\<close> is the truth value that the parser tests in
  \<^verbatim>\<open>if email.primary\<close>.\<close>

record email =
  address :: string
  primary :: bool

text \<open>A \<^verbatim>\<open>gdata.contacts.entry.ContactEntry\<close>. A field that is \<^verbatim>\<open>None\<close> in Python is
  \<open>None\<close> here; \<^verbatim>\<open>id_elem\<close> is the entry's \<^verbatim>\<open>id\<close> and \<^verbatim>\<open>name_elem\<close> its \<^verbatim>\<open>name\<close>.\<close>

record google_contact =
  email :: "email list"
  id_elem :: "text_elem option"
  name_elem :: "name_elem option"
  updated :: "text_elem option"

text \<open>A \<^verbatim>\<open>datetime.datetime\<close>; \<^verbatim>\<open>tzinfo\<close> is the UTC offset in minutes of an aware
  value and \<open>None\<close> for a naive one.\<close>

record datetime =
  year :: int
  month :: int
  day :: int
  hour :: int
  minute :: int
  second :: int
  microsecond :: int
  tzinfo :: "int option"

text \<open>A \<^verbatim>\<open>time.struct_time\<close>, without the week day and the day of the year, which
  \<^verbatim>\<open>time.mktime\<close> ignores. It has no field below the second.\<close>

record struct_time =
  tm_year :: int
  tm_mon :: int
  tm_mday :: int
  tm_hour :: int
  tm_min :: int
  tm_sec :: int
  tm_isdst :: int

text \<open>The \<^verbatim>\<open>Contact\<close> row that the parser builds.\<close>

record Contact =
  imapaccount_id :: int
  source :: string
  g_id :: "string option"
  name :: "string option"
  updated_at :: "datetime option"
  email_address :: "string option"

subsection \<open>The remote client and its query\<close>

record account =
  o_access_token :: string
  o_refresh_token :: string

record OAuth2Token =
  client_id :: string
  client_secret :: string
  scope :: string
  user_agent :: string
  access_token :: string
  refresh_token :: string

record ContactsClient =
  client_source :: string
  auth_token :: OAuth2Token

text \<open>A \<^verbatim>\<open>gdata.contacts.client.ContactsQuery\<close>; a field never assigned is \<open>None\<close>.\<close>

record ContactsQuery =
  max_results :: "int option"
  updated_min :: "string option"

definition new_ContactsQuery :: ContactsQuery where
  "new_ContactsQuery = \<lparr>max_results = None, updated_min = None\<rparr>"

definition SOURCE_APP_NAME :: string where
  "SOURCE_APP_NAME = ''InboxApp Contact Sync Engine''"

subsection \<open>The provider's surroundings\<close>

text \<open>
  What the module imports and does not define: the stored account as
  \<^verbatim>\<open>verify_imap_account\<close> hands it back (or the exception raised while loading and
  verifying it), the OAuth constants, the remote fetch, \<^verbatim>\<open>dateutil.parser.parse\<close>, and the
  local time zone of the process, taken as a fixed offset from UTC in seconds (a zone
  without daylight saving time).
\<close>

record provider =
  account_id :: int
  verify_imap_account :: "exn + account"
  INSTALLED_CLIENT_ID :: string
  INSTALLED_CLIENT_SECRET :: string
  OAUTH_SCOPE :: string
  GetContacts :: "ContactsClient \<Rightarrow> ContactsQuery \<Rightarrow> exn + google_contact list"
  dateutil_parse :: "string \<Rightarrow> exn + datetime"
  local_utcoffset :: int

datatype log_record =
  ShouldNotHaveMoreThanOneEmail "email list"
  | SomethingIsWrongWithContact google_contact
  | InvalidUserCredentials

text \<open>The effects a caller can observe: the records passed to \<^verbatim>\<open>self.log.error\<close>, oldest
  first, and the queries sent to the remote fetch.\<close>

record world =
  logged :: "log_record list"
  fetch_calls :: "ContactsQuery list"

definition log_error :: "log_record \<Rightarrow> world \<Rightarrow> world" where
  "log_error r w = w\<lparr>logged := logged w @ [r]\<rparr>"

subsection \<open>Library functions the parser calls\<close>

text \<open>\<^verbatim>\<open>str.rfind\<close> for a single character: the index of its last occurrence, or -1.\<close>

definition rfind :: "char \<Rightarrow> string \<Rightarrow> int" where
  "rfind c p = (if c \<in> set p
      then int (length p) - 1 - int (length (takeWhile (\<lambda>x. x \<noteq> c) (rev p)))
      else - 1)"

definition rstrip :: "char \<Rightarrow> string \<Rightarrow> string" where
  "rstrip c p = rev (dropWhile (\<lambda>x. x = c) (rev p))"

text \<open>\<^verbatim>\<open>posixpath.split\<close>: everything after the last slash is the tail.\<close>

definition posixpath_split :: "string \<Rightarrow> string \<times> string" where
  "posixpath_split p =
     (let i = nat (rfind CHR ''/'' p + 1);
          head = take i p;
          tail = drop i p;
          head' = (if head \<noteq> [] \<and> head \<noteq> replicate (length head) CHR ''/''
                   then rstrip CHR ''/'' head else head)
      in (head', tail))"

text \<open>The proleptic Gregorian calendar of the \<^verbatim>\<open>datetime\<close> module: day 1 is 0001-01-01.\<close>

definition is_leap :: "int \<Rightarrow> bool" where
  "is_leap y = (y mod 4 = 0 \<and> (y mod 100 \<noteq> 0 \<or> y mod 400 = 0))"

definition days_before_year :: "int \<Rightarrow> int" where
  "days_before_year y = (y - 1) * 365 + (y - 1) div 4 - (y - 1) div 100 + (y - 1) div 400"

definition DAYS_IN_MONTH :: "int list" where
  "DAYS_IN_MONTH = [0, 31, 28, 31, 30, 31, 30, 31, 31, 30, 31, 30, 31]"

definition DAYS_BEFORE_MONTH :: "int list" where
  "DAYS_BEFORE_MONTH = [0, 0, 31, 59, 90, 120, 151, 181, 212, 243, 273, 304, 334]"

definition days_before_month :: "int \<Rightarrow> int \<Rightarrow> int" where
  "days_before_month y m =
     DAYS_BEFORE_MONTH ! nat m + (if m > 2 \<and> is_leap y then 1 else 0)"

definition ymd2ord :: "int \<Rightarrow> int \<Rightarrow> int \<Rightarrow> int" where
  "ymd2ord y m d = days_before_year y + days_before_month y m + d"

definition ord2ymd :: "int \<Rightarrow> int \<times> int \<times> int" where
  "ord2ymd n0 =
     (let n = n0 - 1;
          n400 = n div 146097; n = n mod 146097;
          y = n400 * 400 + 1;
          n100 = n div 36524; n = n mod 36524;
          n4 = n div 1461; n = n mod 1461;
          n1 = n div 365; n = n mod 365;
          y = y + n100 * 100 + n4 * 4 + n1
      in if n1 = 4 \<or> n100 = 4 then (y - 1, 12, 31)
         else
           let leapyear = (n1 = 3 \<and> (n4 \<noteq> 24 \<or> n100 = 3));
               m = (n + 50) div 32;
               preceding = DAYS_BEFORE_MONTH ! nat m + (if m > 2 \<and> leapyear then 1 else 0)
           in if preceding > n
              then let m' = m - 1;
                       preceding' = preceding
                         - (DAYS_IN_MONTH ! nat m' + (if m' = 2 \<and> leapyear then 1 else 0))
                   in (y, m', n - preceding' + 1)
              else (y, m, n - preceding + 1))"

text \<open>The ordinal of 1970-01-01, the epoch of POSIX time.\<close>

definition EPOCH_ORD :: int where
  "EPOCH_ORD = 719163"

text \<open>Seconds from the epoch to a broken-down time read as UTC, and back.\<close>

definition seconds_of :: "int \<Rightarrow> int \<Rightarrow> int \<Rightarrow> int \<Rightarrow> int \<Rightarrow> int \<Rightarrow> int" where
  "seconds_of y m d hh mm ss =
     (ymd2ord y m d - EPOCH_ORD) * 86400 + hh * 3600 + mm * 60 + ss"

definition broken_down :: "int \<Rightarrow> struct_time" where
  "broken_down t =
     (let (y, m, d) = ord2ymd (t div 86400 + EPOCH_ORD); r = t mod 86400
      in \<lparr>tm_year = y, tm_mon = m, tm_mday = d,
          tm_hour = r div 3600, tm_min = r mod 3600 div 60, tm_sec = r mod 60,
          tm_isdst = 0\<rparr>)"

text \<open>
  \<^verbatim>\<open>datetime.utctimetuple\<close>: the fields of a naive value as they are, those of an aware
  value after its UTC offset is subtracted; the microsecond has no place in the result.
\<close>

definition utctimetuple :: "datetime \<Rightarrow> struct_time" where
  "utctimetuple d =
     (case tzinfo d of
        None \<Rightarrow> \<lparr>tm_year = year d, tm_mon = month d, tm_mday = day d,
                  tm_hour = hour d, tm_min = minute d, tm_sec = second d, tm_isdst = 0\<rparr>
      | Some offset \<Rightarrow>
          broken_down (seconds_of (year d) (month d) (day d) (hour d) (minute d - offset)
                         (second d)))"

text \<open>
  \<^verbatim>\<open>time.mktime\<close> of Python 2: the tuple is read as local time. A year below 1900 is
  taken as a two-digit year or refused. The result is a float that holds a whole number
  of seconds, hence an \<open>int\<close> here.
\<close>

definition mktime :: "provider \<Rightarrow> struct_time \<Rightarrow> exn + int" where
  "mktime self t =
     (let y = tm_year t;
          y' = (if y < 1900
                then (if 69 \<le> y \<and> y \<le> 99 then Some (y + 1900)
                      else if 0 \<le> y \<and> y \<le> 68 then Some (y + 2000)
                      else None)
                else Some y)
      in case y' of
           None \<Rightarrow> Inl ValueError
         | Some yy \<Rightarrow>
             Inr (seconds_of yy (tm_mon t) (tm_mday t) (tm_hour t) (tm_min t) (tm_sec t)
                  - local_utcoffset self))"

text \<open>\<^verbatim>\<open>datetime.datetime.fromtimestamp\<close>: the naive local time of a POSIX timestamp.\<close>

definition fromtimestamp :: "provider \<Rightarrow> int \<Rightarrow> exn + datetime" where
  "fromtimestamp self ts =
     (let t = broken_down (ts + local_utcoffset self)
      in if tm_year t < 1 \<or> 9999 < tm_year t then Inl ValueError
         else Inr \<lparr>year = tm_year t, month = tm_mon t, day = tm_mday t,
                   hour = tm_hour t, minute = tm_min t, second = tm_sec t,
                   microsecond = 0, tzinfo = None\<rparr>)"

subsection \<open>\<^verbatim>\<open>_get_google_client\<close>\<close>

text \<open>
  Only \<^verbatim>\<open>BadAuthentication\<close> is caught: it is logged and the result is \<^verbatim>\<open>None\<close>. Any other
  exception leaves the method as it is.
\<close>

definition get_google_client :: "provider \<Rightarrow> world \<Rightarrow> world \<times> (exn + ContactsClient option)" where
  "get_google_client self w =
     (case verify_imap_account self of
        Inl e \<Rightarrow>
          if e = BadAuthentication then (log_error InvalidUserCredentials w, Inr None)
          else (w, Inl e)
      | Inr account \<Rightarrow>
          let two_legged_oauth_token =
                \<lparr>client_id = INSTALLED_CLIENT_ID self,
                 client_secret = INSTALLED_CLIENT_SECRET self,
                 scope = OAUTH_SCOPE self,
                 user_agent = SOURCE_APP_NAME,
                 access_token = o_access_token account,
                 refresh_token = o_refresh_token account\<rparr>;
              google_client =
                \<lparr>client_source = SOURCE_APP_NAME, auth_token = two_legged_oauth_token\<rparr>
          in (w, Inr (Some google_client)))"

subsection \<open>\<^verbatim>\<open>_parse_contact_result\<close>\<close>

text \<open>
  The body of the \<^verbatim>\<open>try\<close> block. Reading \<^verbatim>\<open>.text\<close> of a missing \<^verbatim>\<open>id\<close>, splitting a
  missing text and parsing a missing text all raise \<^verbatim>\<open>AttributeError\<close>; the date parser
  may raise anything.
\<close>

definition try_block ::
  "provider \<Rightarrow> google_contact \<Rightarrow> email list
     \<Rightarrow> exn + string \<times> string option \<times> datetime option \<times> string option" where
  "try_block self gc email_addresses =
     (case id_elem gc of
        None \<Rightarrow> Inl AttributeError
      | Some i \<Rightarrow>
          (case text_of i of
             None \<Rightarrow> Inl AttributeError
           | Some raw_google_id \<Rightarrow>
               let g = snd (posixpath_split raw_google_id);
                   nm = (case name_elem gc of
                           None \<Rightarrow> None
                         | Some n \<Rightarrow> (case full_name n of None \<Rightarrow> None | Some f \<Rightarrow> text_of f));
                   parsed = (case updated gc of
                               None \<Rightarrow> Inr None
                             | Some u \<Rightarrow>
                                 (case text_of u of
                                    None \<Rightarrow> Inl AttributeError
                                  | Some s \<Rightarrow>
                                      (case dateutil_parse self s of
                                         Inl e \<Rightarrow> Inl e
                                       | Inr d \<Rightarrow> Inr (Some d))))
               in (case parsed of
                     Inl e \<Rightarrow> Inl e
                   | Inr upd \<Rightarrow>
                       Inr (g, nm, upd,
                            (case email_addresses of [] \<Rightarrow> None | a # _ \<Rightarrow> Some (address a))))))"

text \<open>
  The whole method. The handler logs the entry and raises again, for \<^verbatim>\<open>AttributeError\<close>
  only. The truncation to whole seconds comes after the \<^verbatim>\<open>try\<close> block and calls
  \<^verbatim>\<open>utctimetuple\<close> on whatever \<^verbatim>\<open>updated_at\<close> holds: on \<^verbatim>\<open>None\<close> that is an
  \<^verbatim>\<open>AttributeError\<close> which nothing catches or logs.
\<close>

definition parse_contact_result ::
  "provider \<Rightarrow> google_contact \<Rightarrow> world \<Rightarrow> world \<times> (exn + Contact)" where
  "parse_contact_result self gc w =
     (let email_addresses = filter primary (email gc);
          w1 = (if email_addresses \<noteq> [] \<and> length email_addresses > 1
                then log_error (ShouldNotHaveMoreThanOneEmail email_addresses) w else w)
      in case try_block self gc email_addresses of
           Inl e \<Rightarrow>
             if e = AttributeError
             then (log_error (SomethingIsWrongWithContact gc) w1, Inl e)
             else (w1, Inl e)
         | Inr (g, nm, upd, addr) \<Rightarrow>
             (case upd of
                None \<Rightarrow> (w1, Inl AttributeError)
              | Some d \<Rightarrow>
                  (case mktime self (utctimetuple d) of
                     Inl e \<Rightarrow> (w1, Inl e)
                   | Inr ts \<Rightarrow>
                       (case fromtimestamp self ts of
                          Inl e \<Rightarrow> (w1, Inl e)
                        | Inr upd' \<Rightarrow>
                            (w1, Inr \<lparr>imapaccount_id = account_id self,
                                      source = ''remote'',
                                      g_id = Some g,
                                      name = nm,
                                      updated_at = Some upd',
                                      email_address = addr\<rparr>)))))"

subsection \<open>\<^verbatim>\<open>get_contacts\<close>\<close>

text \<open>
  \<^verbatim>\<open>get_contacts\<close> is a generator function: the call runs none of its body and returns a
  generator, and each \<^verbatim>\<open>next()\<close> runs the body up to the next \<^verbatim>\<open>yield\<close>, to its end
  (\<^verbatim>\<open>StopIteration\<close>) or to an exception. A generator that has returned or raised is
  finished and stops at every later \<^verbatim>\<open>next()\<close>.
\<close>

datatype generator =
  Created "string option" int
  | Suspended "google_contact list"
  | Finished

datatype outcome = Yield Contact | StopIteration | Raise exn

text \<open>An omitted \<^verbatim>\<open>max_results\<close> is the default 0; an omitted \<^verbatim>\<open>sync_from_time\<close> is
  \<^verbatim>\<open>None\<close>.\<close>

definition get_contacts :: "string option \<Rightarrow> int option \<Rightarrow> generator" where
  "get_contacts sync_from_time max_results_arg =
     Created sync_from_time (case max_results_arg of None \<Rightarrow> 0 | Some n \<Rightarrow> n)"

text \<open>The query that the body builds before it asks for a client.\<close>

definition build_query :: "string option \<Rightarrow> int \<Rightarrow> ContactsQuery" where
  "build_query sync_from_time max_results_arg =
     (let query = new_ContactsQuery;
          query = (if max_results_arg > 0 then query\<lparr>max_results := Some max_results_arg\<rparr>
                   else query)
      in query\<lparr>updated_min := sync_from_time\<rparr>)"

text \<open>One turn of the \<^verbatim>\<open>for\<close> loop over the entries still to come.\<close>

definition for_step ::
  "provider \<Rightarrow> google_contact list \<Rightarrow> world \<Rightarrow> outcome \<times> generator \<times> world" where
  "for_step self entries w =
     (case entries of
        [] \<Rightarrow> (StopIteration, Finished, w)
      | result # rest \<Rightarrow>
          (case parse_contact_result self result w of
             (w', Inl e) \<Rightarrow> (Raise e, Finished, w')
           | (w', Inr c) \<Rightarrow> (Yield c, Suspended rest, w')))"

fun gen_next :: "provider \<Rightarrow> generator \<Rightarrow> world \<Rightarrow> outcome \<times> generator \<times> world" where
  "gen_next self (Created sync_from_time max_results_arg) w =
     (let query = build_query sync_from_time max_results_arg
      in case get_google_client self w of
           (w1, Inl e) \<Rightarrow> (Raise e, Finished, w1)
         | (w1, Inr None) \<Rightarrow> (StopIteration, Finished, w1)
         | (w1, Inr (Some google_client)) \<Rightarrow>
             (let w2 = w1\<lparr>fetch_calls := fetch_calls w1 @ [query]\<rparr>
              in case GetContacts self google_client query of
                   Inl e \<Rightarrow> (Raise e, Finished, w2)
                 | Inr entries \<Rightarrow> for_step self entries w2))"
| "gen_next self (Suspended entries) w = for_step self entries w"
| "gen_next self Finished w = (StopIteration, Finished, w)"

text \<open>The outcomes of \<open>n\<close> calls of \<^verbatim>\<open>next()\<close> in a row.\<close>

fun take_next ::
  "provider \<Rightarrow> nat \<Rightarrow> generator \<Rightarrow> world \<Rightarrow> outcome list \<times> generator \<times> world" where
  "take_next self 0 g w = ([], g, w)"
| "take_next self (Suc n) g w =
     (case gen_next self g w of
        (r, g', w') \<Rightarrow>
          (case take_next self n g' w' of (rs, g'', w'') \<Rightarrow> (r # rs, g'', w'')))"

text \<open>The records among a list of outcomes.\<close>

fun yielded :: "outcome list \<Rightarrow> Contact list" where
  "yielded [] = []"
| "yielded (Yield c # rs) = c # yielded rs"
| "yielded (_ # rs) = yielded rs"

subsection \<open>A provider to run the code on\<close>

text \<open>
  A date parser for the one shape of timestamp the remote service sends,
  \<^verbatim>\<open>YYYY-MM-DDTHH:MM:SS.mmmZ\<close>: it returns what \<^verbatim>\<open>dateutil.parser.parse\<close> returns there, an
  aware value in UTC, and refuses everything else.
\<close>

definition digits :: "string \<Rightarrow> int option" where
  "digits s =
     (if s \<noteq> [] \<and> list_all (\<lambda>c. 48 \<le> (of_char c :: nat) \<and> (of_char c :: nat) \<le> 57) s
      then Some (foldl (\<lambda>a c. 10 * a + (int (of_char c) - 48)) 0 s) else None)"

definition parse_rfc3339_utc :: "string \<Rightarrow> exn + datetime" where
  "parse_rfc3339_utc s =
     (if length s = 24
         \<and> map (\<lambda>i. s ! i) [4, 7, 10, 13, 16, 19, 23] = ''--T::.Z''
      then
        (case (digits (take 4 s), digits (take 2 (drop 5 s)), digits (take 2 (drop 8 s)),
               digits (take 2 (drop 11 s)), digits (take 2 (drop 14 s)),
               digits (take 2 (drop 17 s)), digits (take 3 (drop 20 s))) of
           (Some y, Some m, Some d, Some hh, Some mm, Some ss, Some ms) \<Rightarrow>
             Inr \<lparr>year = y, month = m, day = d, hour = hh, minute = mm, second = ss,
                  microsecond = ms * 1000, tzinfo = Some 0\<rparr>
         | _ \<Rightarrow> Inl ValueError)
      else Inl ValueError)"

text \<open>A stand-in provider with valid credentials in a zone eight hours behind UTC, a
  well-formed entry, and the state before anything was logged or fetched.\<close>

definition example_account :: account where
  "example_account = \<lparr>o_access_token = ''ya29.token'', o_refresh_token = ''1/refresh''\<rparr>"

definition example_entry :: google_contact where
  "example_entry =
     \<lparr>email = [\<lparr>address = ''home@example.com'', primary = False\<rparr>,
               \<lparr>address = ''work@example.com'', primary = True\<rparr>,
               \<lparr>address = ''old@example.com'', primary = True\<rparr>],
      id_elem = Some \<lparr>text_of =
        Some ''http://www.google.com/m8/feeds/contacts/user%40example.com/base/4f3a''\<rparr>,
      name_elem = Some \<lparr>full_name = Some \<lparr>text_of = Some ''Ada Lovelace''\<rparr>\<rparr>,
      updated = Some \<lparr>text_of = Some ''2014-03-01T10:15:30.123Z''\<rparr>\<rparr>"

definition example_provider :: provider where
  "example_provider =
     \<lparr>account_id = 7,
      verify_imap_account = Inr example_account,
      INSTALLED_CLIENT_ID = ''client-id'',
      INSTALLED_CLIENT_SECRET = ''client-secret'',
      OAUTH_SCOPE = ''https://www.google.com/m8/feeds'',
      GetContacts = (\<lambda>c q. Inr [example_entry, example_entry\<lparr>id_elem := None\<rparr>, example_entry]),
      dateutil_parse = parse_rfc3339_utc,
      local_utcoffset = - 28800\<rparr>"

definition fresh_world :: world where
  "fresh_world = \<lparr>logged = [], fetch_calls = []\<rparr>"

text \<open>The anomaly records that one entry adds to the log.\<close>

definition anomaly :: "google_contact \<Rightarrow> log_record list" where
  "anomaly gc =
     (if 1 < length (filter primary (email gc))
      then [ShouldNotHaveMoreThanOneEmail (filter primary (email gc))] else [])"

fun is_anomaly :: "log_record \<Rightarrow> bool" where
  "is_anomaly (ShouldNotHaveMoreThanOneEmail _) = True"
| "is_anomaly _ = False"

text \<open>The record that the stand-in provider builds from the well-formed entry.\<close>

definition example_contact :: Contact where
  "example_contact =
     \<lparr>imapaccount_id = 7, source = ''remote'', g_id = Some ''4f3a'',
      name = Some ''Ada Lovelace'',
      updated_at = Some \<lparr>year = 2014, month = 3, day = 1, hour = 10, minute = 15,
                          second = 30, microsecond = 0, tzinfo = None\<rparr>,
      email_address = Some ''work@example.com''\<rparr>"

section \<open>Properties\<close>

subsection \<open>What an operation does to the log and to the fetch counter\<close>

lemma fetch_calls_log_error: "fetch_calls (log_error r w) = fetch_calls w"
  by (simp add: log_error_def)

lemma logged_log_error: "logged (log_error r w) = logged w @ [r]"
  by (simp add: log_error_def)

lemma parse_contact_result_world:
  "fst (parse_contact_result self gc w) =
     w\<lparr>logged := logged w @ anomaly gc
          @ (if try_block self gc (filter primary (email gc)) = Inl AttributeError
             then [SomethingIsWrongWithContact gc] else [])\<rparr>"
  by (simp add: parse_contact_result_def anomaly_def log_error_def Let_def
      split: sum.splits option.splits prod.splits)

lemma parse_contact_result_result:
  "snd (parse_contact_result self gc w) = snd (parse_contact_result self gc w0)"
  by (simp add: parse_contact_result_def Let_def split: sum.splits option.splits prod.splits)

lemma get_google_client_valid:
  "verify_imap_account self = Inr acct \<Longrightarrow> \<exists>c. get_google_client self w = (w, Inr (Some c))"
  by (simp add: get_google_client_def Let_def)

lemma get_google_client_invalid:
  "verify_imap_account self = Inl BadAuthentication \<Longrightarrow>
     get_google_client self w = (log_error InvalidUserCredentials w, Inr None)"
  by (simp add: get_google_client_def)

lemma for_step_fetch_calls: "fetch_calls (snd (snd (for_step self es w))) = fetch_calls w"
proof (cases es)
  case Nil
  then show ?thesis by (simp add: for_step_def)
next
  case (Cons e rest)
  obtain w' r where p: "parse_contact_result self e w = (w', r)" by fastforce
  have "w' = fst (parse_contact_result self e w)" using p by simp
  then have "fetch_calls w' = fetch_calls w" by (simp add: parse_contact_result_world)
  with Cons p show ?thesis by (cases r) (simp_all add: for_step_def)
qed

lemma take_next_Finished: "take_next self n Finished w = (replicate n StopIteration, Finished, w)"
  by (induction n) simp_all

lemma first_step_fetch:
  assumes "verify_imap_account self = Inr acct"
  shows "fetch_calls (snd (snd (gen_next self (Created sft n) w)))
           = fetch_calls w @ [build_query sft n]"
proof -
  obtain c where c: "get_google_client self w = (w, Inr (Some c))"
    using get_google_client_valid [OF assms] by blast
  show ?thesis
    by (cases "GetContacts self c (build_query sft n)")
       (simp_all add: c Let_def for_step_fetch_calls)
qed

lemma parse_contact_result_snd:
  "snd (parse_contact_result self gc w) =
     (case try_block self gc (filter primary (email gc)) of
        Inl e \<Rightarrow> Inl e
      | Inr (g, nm, upd, addr) \<Rightarrow>
          (case upd of
             None \<Rightarrow> Inl AttributeError
           | Some d \<Rightarrow>
               (case mktime self (utctimetuple d) of
                  Inl e \<Rightarrow> Inl e
                | Inr ts \<Rightarrow>
                    (case fromtimestamp self ts of
                       Inl e \<Rightarrow> Inl e
                     | Inr upd' \<Rightarrow>
                         Inr \<lparr>imapaccount_id = account_id self, source = ''remote'',
                              g_id = Some g, name = nm, updated_at = Some upd',
                              email_address = addr\<rparr>))))"
  by (simp add: parse_contact_result_def Let_def split: sum.splits option.splits prod.splits)

text \<open>What a record that was produced says about the entry it came from.\<close>

lemma parse_contact_result_InrD:
  assumes "parse_contact_result self gc w = (w', Inr c)"
  shows "\<exists>i s u t d ts upd'.
           id_elem gc = Some i \<and> text_of i = Some s
         \<and> updated gc = Some u \<and> text_of u = Some t \<and> dateutil_parse self t = Inr d
         \<and> mktime self (utctimetuple d) = Inr ts \<and> fromtimestamp self ts = Inr upd'
         \<and> c = \<lparr>imapaccount_id = account_id self, source = ''remote'',
                 g_id = Some (snd (posixpath_split s)),
                 name = (case name_elem gc of None \<Rightarrow> None
                         | Some n \<Rightarrow> (case full_name n of None \<Rightarrow> None | Some f \<Rightarrow> text_of f)),
                 updated_at = Some upd',
                 email_address = (case filter primary (email gc) of [] \<Rightarrow> None
                                  | a # _ \<Rightarrow> Some (address a))\<rparr>"
  using assms
  by (auto simp: parse_contact_result_def try_block_def Let_def
      split: sum.splits option.splits prod.splits if_splits)

lemma try_block_emails:
  "try_block self gc es = Inl e \<Longrightarrow> try_block self (gc\<lparr>email := es'\<rparr>) es'' = Inl e"
  by (auto simp: try_block_def Let_def split: option.splits sum.splits)

lemma try_block_emails_Inr:
  "try_block self gc es = Inr (g, nm, upd, addr) \<Longrightarrow>
     \<exists>addr'. try_block self (gc\<lparr>email := es'\<rparr>) es'' = Inr (g, nm, upd, addr')"
  by (auto simp: try_block_def Let_def split: option.splits sum.splits)

text \<open>An exception that leaves the parser does not depend on the entry's emails.\<close>

lemma parse_contact_result_emails:
  assumes "snd (parse_contact_result self gc w) = Inl e"
  shows "snd (parse_contact_result self (gc\<lparr>email := es\<rparr>) w) = Inl e"
proof (cases "try_block self gc (filter primary (email gc))")
  case (Inl x)
  with assms have "x = e" by (simp add: parse_contact_result_snd)
  with Inl have "try_block self (gc\<lparr>email := es\<rparr>) (filter primary es) = Inl e"
    using try_block_emails by blast
  then show ?thesis by (simp add: parse_contact_result_snd)
next
  case (Inr t)
  obtain g nm upd addr where t: "t = (g, nm, upd, addr)" by (cases t) auto
  with Inr obtain addr' where
    "try_block self (gc\<lparr>email := es\<rparr>) (filter primary es) = Inr (g, nm, upd, addr')"
    using try_block_emails_Inr by blast
  with assms Inr t show ?thesis
    by (auto simp: parse_contact_result_snd split: option.splits sum.splits)
qed

lemma anomaly_count:
  "length (filter is_anomaly (anomaly gc))
     = (if 2 \<le> length (filter primary (email gc)) then 1 else 0)"
  by (simp add: anomaly_def)

lemma parse_contact_result_no_id:
  assumes "id_elem gc = None"
  shows "parse_contact_result self gc w
           = (w\<lparr>logged := logged w @ anomaly gc @ [SomethingIsWrongWithContact gc]\<rparr>,
              Inl AttributeError)"
proof -
  have t: "try_block self gc es = Inl AttributeError" for es
    using assms by (simp add: try_block_def)
  have "fst (parse_contact_result self gc w)
          = w\<lparr>logged := logged w @ anomaly gc @ [SomethingIsWrongWithContact gc]\<rparr>"
    by (simp add: parse_contact_result_world t)
  moreover have "snd (parse_contact_result self gc w) = Inl AttributeError"
    by (simp add: parse_contact_result_snd t)
  ultimately show ?thesis by (simp add: prod_eq_iff)
qed

subsection \<open>Running the generator\<close>

lemma take_next_add:
  "take_next self (m + n) g w =
     (case take_next self m g w of
        (rs, g', w') \<Rightarrow>
          (case take_next self n g' w' of (rs', g'', w'') \<Rightarrow> (rs @ rs', g'', w'')))"
  by (induction m arbitrary: g w) (simp_all split: prod.splits)

text \<open>Entries that parse are yielded one per step, in their order.\<close>

lemma take_next_Suspended:
  assumes "list_all2 (\<lambda>x c. snd (parse_contact_result self x w0) = Inr c) pre cs"
  shows "\<exists>w'. take_next self (length pre) (Suspended (pre @ rest)) w
                 = (map Yield cs, Suspended rest, w')"
  using assms
proof (induction pre cs arbitrary: w rule: list_all2_induct)
  case Nil
  then show ?case by simp
next
  case (Cons x xs c cs)
  obtain w1 r where p: "parse_contact_result self x w = (w1, r)" by fastforce
  have "r = snd (parse_contact_result self x w)" using p by simp
  also have "\<dots> = Inr c"
    using Cons.hyps(1) parse_contact_result_result [of self x w w0] by simp
  finally have r: "r = Inr c" .
  obtain w' where "take_next self (length xs) (Suspended (xs @ rest)) w1
                 = (map Yield cs, Suspended rest, w')"
    using Cons.IH by blast
  then show ?case by (simp add: for_step_def p r)
qed

lemma gen_next_Created:
  assumes "get_google_client self w = (w1, Inr (Some client))"
    and "GetContacts self client (build_query sft n) = Inr es"
  shows "gen_next self (Created sft n) w
           = gen_next self (Suspended es)
               (w\<lparr>fetch_calls := fetch_calls w @ [build_query sft n]\<rparr>)"
proof -
  have "w1 = w"
    using assms(1) by (auto simp: get_google_client_def Let_def split: sum.splits if_splits)
  with assms show ?thesis by (simp add: Let_def)
qed

subsection \<open>The path and the calendar\<close>

lemma rfind_tail:
  assumes "c \<notin> set uid"
  shows "rfind c (pre @ c # uid) = int (length pre)"
proof -
  have "takeWhile (\<lambda>x. x \<noteq> c) (rev uid @ c # rev pre) = rev uid"
    using assms by (auto simp: takeWhile_tail)
  then show ?thesis by (simp add: rfind_def)
qed

lemma posixpath_split_tail:
  assumes "CHR ''/'' \<notin> set uid"
  shows "snd (posixpath_split (pre @ CHR ''/'' # uid)) = uid"
proof -
  have "nat (int (length pre) + 1) = Suc (length pre)" by simp
  then show ?thesis
    by (simp add: posixpath_split_def Let_def rfind_tail [OF assms])
qed

text \<open>The microsecond of a value plays no part in its \<^verbatim>\<open>utctimetuple\<close>, and a value made
  by \<^verbatim>\<open>fromtimestamp\<close> from whole seconds has none.\<close>

lemma utctimetuple_microsecond: "utctimetuple (d\<lparr>microsecond := us\<rparr>) = utctimetuple d"
  by (simp add: utctimetuple_def split: option.splits)

lemma fromtimestamp_whole_seconds:
  "fromtimestamp self ts = Inr d \<Longrightarrow> microsecond d = 0 \<and> tzinfo d = None"
  by (auto simp: fromtimestamp_def Let_def split: if_splits)

lemma updated_at_whole_seconds:
  assumes "parse_contact_result self gc w = (w', Inr c)"
  shows "\<exists>d. updated_at c = Some d \<and> microsecond d = 0 \<and> tzinfo d = None"
  using parse_contact_result_InrD [OF assms] fromtimestamp_whole_seconds by fastforce

lemma utctimetuple_example:
  "utctimetuple \<lparr>year = 2014, month = 3, day = 1, hour = 10, minute = 15, second = 30,
                  microsecond = us, tzinfo = Some 0\<rparr>
     = \<lparr>tm_year = 2014, tm_mon = 3, tm_mday = 1, tm_hour = 10, tm_min = 15, tm_sec = 30,
        tm_isdst = 0\<rparr>"
proof -
  have s: "seconds_of 2014 3 1 10 15 30 = 1393668930" by code_simp
  have b: "broken_down 1393668930 = \<lparr>tm_year = 2014, tm_mon = 3, tm_mday = 1, tm_hour = 10,
              tm_min = 15, tm_sec = 30, tm_isdst = 0\<rparr>" by code_simp
  show ?thesis by (simp add: utctimetuple_def s b)
qed

lemma mktime_fromtimestamp_example:
  assumes "mktime self \<lparr>tm_year = 2014, tm_mon = 3, tm_mday = 1, tm_hour = 10, tm_min = 15,
              tm_sec = 30, tm_isdst = 0\<rparr> = Inr ts"
  shows "fromtimestamp self ts
     = Inr \<lparr>year = 2014, month = 3, day = 1, hour = 10, minute = 15, second = 30,
            microsecond = 0, tzinfo = None\<rparr>"
proof -
  have s: "seconds_of 2014 3 1 10 15 30 = 1393668930" by code_simp
  have b: "broken_down 1393668930 = \<lparr>tm_year = 2014, tm_mon = 3, tm_mday = 1, tm_hour = 10,
              tm_min = 15, tm_sec = 30, tm_isdst = 0\<rparr>" by code_simp
  from assms have "ts = 1393668930 - local_utcoffset self"
    by (simp add: mktime_def s Let_def)
  then show ?thesis by (simp add: fromtimestamp_def b Let_def)
qed

subsection \<open>The stand-in provider, evaluated\<close>

lemma example_parse:
  "parse_contact_result example_provider example_entry fresh_world
     = (\<lparr>logged = [ShouldNotHaveMoreThanOneEmail
                      [\<lparr>address = ''work@example.com'', primary = True\<rparr>,
                       \<lparr>address = ''old@example.com'', primary = True\<rparr>]],
         fetch_calls = []\<rparr>, Inr example_contact)"
  by code_simp

lemma example_dateutil_parse:
  "dateutil_parse example_provider ''2014-03-01T10:15:30.123Z''
     = Inr \<lparr>year = 2014, month = 3, day = 1, hour = 10, minute = 15, second = 30,
            microsecond = 123000, tzinfo = Some 0\<rparr>"
  by code_simp

subsection \<open>The query\<close>

text \<open>
  C7. Called with \<^verbatim>\<open>max_results = 5\<close>, \<^verbatim>\<open>get_contacts\<close> builds a query whose \<^verbatim>\<open>max_results\<close>
  is 5; called with 0 or without the argument, a query whose \<^verbatim>\<open>max_results\<close> was never
  assigned. With valid credentials that query, and no other, is what the first
  \<^verbatim>\<open>next()\<close> sends to the remote fetch.
\<close>

theorem get_contacts_max_results_cap:
  "max_results (build_query sft 5) = Some 5
   \<and> max_results (build_query sft 0) = None
   \<and> get_contacts sft None = get_contacts sft (Some 0)
   \<and> (verify_imap_account self = Inr acct \<longrightarrow>
        fetch_calls (snd (snd (gen_next self (get_contacts sft (Some 5)) w)))
           = fetch_calls w @ [\<lparr>max_results = Some 5, updated_min = sft\<rparr>]
      \<and> fetch_calls (snd (snd (gen_next self (get_contacts sft (Some 0)) w)))
           = fetch_calls w @ [\<lparr>max_results = None, updated_min = sft\<rparr>]
      \<and> fetch_calls (snd (snd (gen_next self (get_contacts sft None) w)))
           = fetch_calls w @ [\<lparr>max_results = None, updated_min = sft\<rparr>])"
proof -
  have q: "max_results (build_query sft 5) = Some 5" "max_results (build_query sft 0) = None"
    by (simp_all add: build_query_def new_ContactsQuery_def)
  have d: "get_contacts sft None = get_contacts sft (Some 0)"
    by (simp add: get_contacts_def)
  have f: "fetch_calls (snd (snd (gen_next self (get_contacts sft (Some 5)) w)))
           = fetch_calls w @ [\<lparr>max_results = Some 5, updated_min = sft\<rparr>]
      \<and> fetch_calls (snd (snd (gen_next self (get_contacts sft (Some 0)) w)))
           = fetch_calls w @ [\<lparr>max_results = None, updated_min = sft\<rparr>]
      \<and> fetch_calls (snd (snd (gen_next self (get_contacts sft None) w)))
           = fetch_calls w @ [\<lparr>max_results = None, updated_min = sft\<rparr>]"
    if "verify_imap_account self = Inr acct"
    by (simp add: get_contacts_def first_step_fetch [OF that] build_query_def
        new_ContactsQuery_def del: gen_next.simps)
  from q d f show ?thesis by blast
qed

theorem get_contacts_max_results_cap_witness:
  "verify_imap_account example_provider = Inr example_account
   \<and> fetch_calls (snd (snd (gen_next example_provider (get_contacts None (Some 5)) fresh_world)))
       = [\<lparr>max_results = Some 5, updated_min = None\<rparr>]
   \<and> fetch_calls (snd (snd (gen_next example_provider (get_contacts None (Some 0)) fresh_world)))
       = [\<lparr>max_results = None, updated_min = None\<rparr>]
   \<and> fetch_calls (snd (snd (gen_next example_provider (get_contacts None None) fresh_world)))
       = [\<lparr>max_results = None, updated_min = None\<rparr>]"
proof -
  have v: "verify_imap_account example_provider = Inr example_account"
    by (simp add: example_provider_def)
  show ?thesis
    using v get_contacts_max_results_cap [of None example_provider example_account fresh_world]
    by (simp add: fresh_world_def del: gen_next.simps)
qed

text \<open>
  C8. Called with a string as \<^verbatim>\<open>sync_from_time\<close>, \<^verbatim>\<open>get_contacts\<close> builds a query whose
  \<^verbatim>\<open>updated_min\<close> is that string, unchanged, whatever the string and whatever
  \<^verbatim>\<open>max_results\<close>. With valid credentials that query, and no other, is what the first
  \<^verbatim>\<open>next()\<close> sends to the remote fetch.
\<close>

theorem get_contacts_updated_min:
  "updated_min (build_query (Some s) n) = Some s
   \<and> (verify_imap_account self = Inr acct \<longrightarrow>
        (\<exists>q. fetch_calls (snd (snd (gen_next self (get_contacts (Some s) mr) w)))
                = fetch_calls w @ [q]
             \<and> updated_min q = Some s))"
proof -
  have q: "updated_min (build_query (Some s) k) = Some s" for k
    by (simp add: build_query_def Let_def)
  have f: "\<exists>q. fetch_calls (snd (snd (gen_next self (get_contacts (Some s) mr) w)))
                = fetch_calls w @ [q]
             \<and> updated_min q = Some s"
    if "verify_imap_account self = Inr acct"
    by (simp add: get_contacts_def first_step_fetch [OF that] q del: gen_next.simps)
  from q f show ?thesis by blast
qed

theorem get_contacts_updated_min_witness:
  "verify_imap_account example_provider = Inr example_account
   \<and> (\<exists>q. fetch_calls (snd (snd (gen_next example_provider
               (get_contacts (Some ''2020-01-01T00:00:00Z'') None) fresh_world))) = [q]
          \<and> updated_min q = Some ''2020-01-01T00:00:00Z'')"
proof -
  have v: "verify_imap_account example_provider = Inr example_account"
    by (simp add: example_provider_def)
  show ?thesis
    using v get_contacts_updated_min
      [of "''2020-01-01T00:00:00Z''" 0 example_provider example_account None fresh_world]
    by (simp add: fresh_world_def del: gen_next.simps)
qed

text \<open>
  C10. A negative \<^verbatim>\<open>max_results\<close> is treated as 0 and as an omitted argument: the query has no
  cap, and the first \<^verbatim>\<open>next()\<close> has the same outcome, leaves the same generator and the same
  log and fetches, so no error is raised for the argument.
\<close>

theorem get_contacts_negative_max_results:
  assumes "n < 0"
  shows "gen_next self (get_contacts sft (Some n)) w = gen_next self (get_contacts sft (Some 0)) w
       \<and> gen_next self (get_contacts sft (Some n)) w = gen_next self (get_contacts sft None) w
       \<and> max_results (build_query sft n) = None"
  using assms by (simp add: get_contacts_def build_query_def new_ContactsQuery_def)

theorem get_contacts_negative_max_results_witness:
  "(- 3 :: int) < 0
   \<and> gen_next example_provider (get_contacts None (Some (- 3))) fresh_world
       = gen_next example_provider (get_contacts None (Some 0)) fresh_world
   \<and> max_results (build_query None (- 3)) = None"
  using get_contacts_negative_max_results [of "- 3" example_provider None fresh_world]
  by simp

subsection \<open>Invalid credentials\<close>

text \<open>
  C4. When the stored credentials are refused (\<^verbatim>\<open>BadAuthentication\<close>), every \<^verbatim>\<open>next()\<close> of
  the sequence that \<^verbatim>\<open>get_contacts\<close> returns is \<^verbatim>\<open>StopIteration\<close>: the sequence is empty and
  nothing is raised. One error is logged, and the list of queries sent to the remote
  fetch is what it was.
\<close>

theorem get_contacts_invalid_credentials:
  assumes "verify_imap_account self = Inl BadAuthentication"
  shows "take_next self (Suc n) (get_contacts sft mr) w
           = (replicate (Suc n) StopIteration, Finished, log_error InvalidUserCredentials w)
       \<and> yielded (fst (take_next self (Suc n) (get_contacts sft mr) w)) = []
       \<and> logged (log_error InvalidUserCredentials w) = logged w @ [InvalidUserCredentials]
       \<and> fetch_calls (log_error InvalidUserCredentials w) = fetch_calls w"
proof -
  have run: "take_next self (Suc n) (get_contacts sft mr) w
           = (replicate (Suc n) StopIteration, Finished, log_error InvalidUserCredentials w)"
    by (simp add: get_contacts_def get_google_client_invalid [OF assms] take_next_Finished)
  have none: "yielded (replicate k StopIteration) = []" for k
    by (induction k) simp_all
  show ?thesis
    unfolding run using none [of "Suc n"]
    by (simp add: fetch_calls_log_error logged_log_error)
qed

theorem get_contacts_invalid_credentials_witness:
  "verify_imap_account (example_provider\<lparr>verify_imap_account := Inl BadAuthentication\<rparr>)
     = Inl BadAuthentication
   \<and> take_next (example_provider\<lparr>verify_imap_account := Inl BadAuthentication\<rparr>) 3
       (get_contacts None None) fresh_world
     = ([StopIteration, StopIteration, StopIteration], Finished,
        \<lparr>logged = [InvalidUserCredentials], fetch_calls = []\<rparr>)"
proof -
  have v: "verify_imap_account (example_provider\<lparr>verify_imap_account := Inl BadAuthentication\<rparr>)
     = Inl BadAuthentication"
    by simp
  show ?thesis
    using v get_contacts_invalid_credentials [OF v, of 2 None None fresh_world]
    by (simp add: fresh_world_def log_error_def numeral_3_eq_3 del: take_next.simps)
qed

subsection \<open>The entry parser\<close>

text \<open>
  C1. The claim: an entry with an update timestamp gives a record whose \<^verbatim>\<open>updated_at\<close> is
  the parsed time cut to whole seconds, and an entry without one gives a record whose
  \<^verbatim>\<open>updated_at\<close> is \<^verbatim>\<open>None\<close>. The code does not do the second: for no entry without
  \<^verbatim>\<open>updated\<close> is a record produced. On the well-formed entry with its \<^verbatim>\<open>updated\<close> taken
  away, the \<^verbatim>\<open>try\<close> block succeeds with \<^verbatim>\<open>updated_at = None\<close>, nothing but the anomaly is
  logged, and the truncation after the block raises \<^verbatim>\<open>AttributeError\<close>.
\<close>

theorem updated_absent_raises:
  "(\<forall>c. snd (parse_contact_result self (gc\<lparr>updated := None\<rparr>) w) \<noteq> Inr c)
   \<and> parse_contact_result self (example_entry\<lparr>updated := None\<rparr>) w
       = (w\<lparr>logged := logged w @ anomaly example_entry\<rparr>, Inl AttributeError)"
proof -
  have a: "snd (parse_contact_result self (gc\<lparr>updated := None\<rparr>) w) \<noteq> Inr c" for c
    by (simp add: parse_contact_result_snd try_block_def Let_def
        split: sum.splits option.splits prod.splits)
  have t: "try_block self (example_entry\<lparr>updated := None\<rparr>) es \<noteq> Inl AttributeError" for es
    by (simp add: try_block_def example_entry_def Let_def)
  have an: "anomaly (example_entry\<lparr>updated := None\<rparr>) = anomaly example_entry"
    by (simp add: anomaly_def)
  have f: "fst (parse_contact_result self (example_entry\<lparr>updated := None\<rparr>) w)
       = w\<lparr>logged := logged w @ anomaly example_entry\<rparr>"
    by (simp add: parse_contact_result_world t an)
  have s: "snd (parse_contact_result self (example_entry\<lparr>updated := None\<rparr>) w)
       = Inl AttributeError"
    by (simp add: parse_contact_result_snd try_block_def example_entry_def Let_def)
  from a f s show ?thesis by (simp add: prod_eq_iff)
qed

text \<open>
  C2. Whenever the parser produces a record: with no email flagged primary its
  \<^verbatim>\<open>email_address\<close> is \<^verbatim>\<open>None\<close>; with exactly one it is that email's address; with two or
  more it is the address of the first primary email of the entry's collection. What the
  call adds to the log holds the anomaly once when there are two or more primary emails
  and not at all otherwise. An exception that the parser raises is raised just the same
  for the entry without its emails, so none is raised on account of them.
\<close>

theorem primary_email_address:
  assumes "parse_contact_result self gc w = (w', r)"
  shows "(\<forall>c. r = Inr c \<and> filter primary (email gc) = [] \<longrightarrow> email_address c = None)
       \<and> (\<forall>c a. r = Inr c \<and> filter primary (email gc) = [a]
             \<longrightarrow> email_address c = Some (address a))
       \<and> (\<forall>c. r = Inr c \<and> 2 \<le> length (filter primary (email gc)) \<longrightarrow>
             List.find primary (email gc) \<noteq> None
           \<and> email_address c = map_option address (List.find primary (email gc)))
       \<and> (\<exists>new. logged w' = logged w @ new
            \<and> length (filter is_anomaly new)
                = (if 2 \<le> length (filter primary (email gc)) then 1 else 0))
       \<and> (\<forall>e. r = Inl e \<longrightarrow> snd (parse_contact_result self (gc\<lparr>email := []\<rparr>) w) = Inl e)"
proof -
  have addr: "email_address c = (case filter primary (email gc) of [] \<Rightarrow> None
                                  | a # _ \<Rightarrow> Some (address a))" if "r = Inr c" for c
    using parse_contact_result_InrD [of self gc w w' c] assms that by auto
  have first: "(case filter primary xs of [] \<Rightarrow> None | a # _ \<Rightarrow> Some (address a))
                 = map_option address (List.find primary xs)" for xs :: "email list"
    by (induction xs) simp_all
  have some: "List.find primary xs \<noteq> None" if "2 \<le> length (filter primary xs)"
    for xs :: "email list"
    using that by (induction xs) (auto split: if_splits)
  have w': "w' = fst (parse_contact_result self gc w)" using assms by simp
  have log: "\<exists>new. logged w' = logged w @ new
            \<and> length (filter is_anomaly new)
                = (if 2 \<le> length (filter primary (email gc)) then 1 else 0)"
    unfolding w' parse_contact_result_world
    by (rule exI [of _ "anomaly gc
          @ (if try_block self gc (filter primary (email gc)) = Inl AttributeError
             then [SomethingIsWrongWithContact gc] else [])"])
       (simp add: anomaly_count del: One_nat_def)
  have err: "snd (parse_contact_result self (gc\<lparr>email := []\<rparr>) w) = Inl e" if "r = Inl e" for e
    using parse_contact_result_emails [of self gc w e "[]"] assms that by simp
  have zero: "\<forall>c. r = Inr c \<and> filter primary (email gc) = [] \<longrightarrow> email_address c = None"
    using addr by simp
  have one: "\<forall>c a. r = Inr c \<and> filter primary (email gc) = [a]
               \<longrightarrow> email_address c = Some (address a)"
    using addr by simp
  have many: "\<forall>c. r = Inr c \<and> 2 \<le> length (filter primary (email gc)) \<longrightarrow>
             List.find primary (email gc) \<noteq> None
           \<and> email_address c = map_option address (List.find primary (email gc))"
    using addr first [of "email gc"] some [of "email gc"] by simp
  from zero one many log err show ?thesis by blast
qed

theorem primary_email_address_witness:
  "parse_contact_result example_provider example_entry fresh_world
     = (\<lparr>logged = [ShouldNotHaveMoreThanOneEmail
                      [\<lparr>address = ''work@example.com'', primary = True\<rparr>,
                       \<lparr>address = ''old@example.com'', primary = True\<rparr>]],
         fetch_calls = []\<rparr>, Inr example_contact)
   \<and> 2 \<le> length (filter primary (email example_entry))
   \<and> List.find primary (email example_entry)
       = Some \<lparr>address = ''work@example.com'', primary = True\<rparr>
   \<and> email_address example_contact = Some ''work@example.com''
   \<and> length (filter is_anomaly [ShouldNotHaveMoreThanOneEmail
                      [\<lparr>address = ''work@example.com'', primary = True\<rparr>,
                       \<lparr>address = ''old@example.com'', primary = True\<rparr>]]) = 1"
proof -
  have e: "filter primary (email example_entry)
             = [\<lparr>address = ''work@example.com'', primary = True\<rparr>,
                \<lparr>address = ''old@example.com'', primary = True\<rparr>]"
    by (simp add: example_entry_def)
  have f: "List.find primary (email example_entry)
             = Some \<lparr>address = ''work@example.com'', primary = True\<rparr>"
    by (simp add: example_entry_def)
  show ?thesis
    using primary_email_address [OF example_parse] example_parse e f by simp
qed

text \<open>
  C5. Take an entry whose \<^verbatim>\<open>updated\<close> text is \<^verbatim>\<open>2014-03-01T10:15:30.123Z\<close>, and a date
  parser that reads it as 10:15:30 UTC on 1 March 2014 with whatever microsecond \<open>us\<close>
  (123000 for this string). The record that the parser produces has the naive time
  10:15:30 on that day as \<^verbatim>\<open>updated_at\<close>, with microsecond 0: the second stays 30 for every
  \<open>us\<close>, so the fraction is dropped and never rounded. This holds in every local zone
  with a fixed offset.
\<close>

theorem updated_at_example_truncated:
  assumes "updated gc = Some u"
    and "text_of u = Some ''2014-03-01T10:15:30.123Z''"
    and "dateutil_parse self ''2014-03-01T10:15:30.123Z''
           = Inr \<lparr>year = 2014, month = 3, day = 1, hour = 10, minute = 15, second = 30,
                  microsecond = us, tzinfo = Some 0\<rparr>"
    and "parse_contact_result self gc w = (w', Inr c)"
  shows "updated_at c = Some \<lparr>year = 2014, month = 3, day = 1, hour = 10, minute = 15,
                               second = 30, microsecond = 0, tzinfo = None\<rparr>"
proof -
  obtain u' t d ts upd' where
    u: "updated gc = Some u'" "text_of u' = Some t" "dateutil_parse self t = Inr d"
    and m: "mktime self (utctimetuple d) = Inr ts"
    and f: "fromtimestamp self ts = Inr upd'"
    and c: "updated_at c = Some upd'"
    using parse_contact_result_InrD [OF assms(4)] by fastforce
  from u assms(1-3) have
    "d = \<lparr>year = 2014, month = 3, day = 1, hour = 10, minute = 15, second = 30,
                  microsecond = us, tzinfo = Some 0\<rparr>" by simp
  with m have "mktime self \<lparr>tm_year = 2014, tm_mon = 3, tm_mday = 1, tm_hour = 10, tm_min = 15,
              tm_sec = 30, tm_isdst = 0\<rparr> = Inr ts"
    by (simp add: utctimetuple_example)
  from mktime_fromtimestamp_example [OF this] f c show ?thesis by simp
qed

theorem updated_at_example_truncated_witness:
  "updated example_entry = Some \<lparr>text_of = Some ''2014-03-01T10:15:30.123Z''\<rparr>
   \<and> dateutil_parse example_provider ''2014-03-01T10:15:30.123Z''
       = Inr \<lparr>year = 2014, month = 3, day = 1, hour = 10, minute = 15, second = 30,
              microsecond = 123000, tzinfo = Some 0\<rparr>
   \<and> (\<exists>w' c. parse_contact_result example_provider example_entry fresh_world = (w', Inr c)
        \<and> updated_at c = Some \<lparr>year = 2014, month = 3, day = 1, hour = 10, minute = 15,
                                 second = 30, microsecond = 0, tzinfo = None\<rparr>)"
proof -
  have u: "updated example_entry = Some \<lparr>text_of = Some ''2014-03-01T10:15:30.123Z''\<rparr>"
    by (simp add: example_entry_def)
  have t: "text_of \<lparr>text_of = Some ''2014-03-01T10:15:30.123Z''\<rparr>
             = Some ''2014-03-01T10:15:30.123Z''" by simp
  show ?thesis
    using u example_dateutil_parse
      updated_at_example_truncated [OF u t example_dateutil_parse example_parse]
    by (simp add: example_parse)
qed

text \<open>
  C6. When the text of the entry's \<^verbatim>\<open>id\<close> is a path that ends in \<^verbatim>\<open>/base/<uid>\<close>, with no
  slash in \<^verbatim>\<open><uid>\<close>, the record that the parser produces has \<^verbatim>\<open><uid>\<close> as its \<^verbatim>\<open>g_id\<close>.
\<close>

theorem external_id_final_segment:
  assumes "id_elem gc = Some i"
    and "text_of i = Some (pre @ ''/base/'' @ uid)"
    and "CHR ''/'' \<notin> set uid"
    and "parse_contact_result self gc w = (w', Inr c)"
  shows "g_id c = Some uid"
proof -
  have "pre @ ''/base/'' @ uid = (pre @ ''/base'') @ CHR ''/'' # uid" by simp
  then have "snd (posixpath_split (pre @ ''/base/'' @ uid)) = uid"
    using posixpath_split_tail [OF assms(3)] by metis
  with parse_contact_result_InrD [OF assms(4)] assms(1,2) show ?thesis by auto
qed

theorem external_id_final_segment_witness:
  "id_elem example_entry = Some \<lparr>text_of =
      Some (''http://www.google.com/m8/feeds/contacts/user%40example.com''
            @ ''/base/'' @ ''4f3a'')\<rparr>
   \<and> CHR ''/'' \<notin> set ''4f3a''
   \<and> parse_contact_result example_provider example_entry fresh_world
       = (\<lparr>logged = [ShouldNotHaveMoreThanOneEmail
                      [\<lparr>address = ''work@example.com'', primary = True\<rparr>,
                       \<lparr>address = ''old@example.com'', primary = True\<rparr>]],
         fetch_calls = []\<rparr>, Inr example_contact)
   \<and> g_id example_contact = Some ''4f3a''"
proof -
  have i: "id_elem example_entry = Some \<lparr>text_of =
      Some (''http://www.google.com/m8/feeds/contacts/user%40example.com''
            @ ''/base/'' @ ''4f3a'')\<rparr>"
    by (simp add: example_entry_def)
  have t: "text_of \<lparr>text_of =
      Some (''http://www.google.com/m8/feeds/contacts/user%40example.com''
            @ ''/base/'' @ ''4f3a'')\<rparr>
      = Some (''http://www.google.com/m8/feeds/contacts/user%40example.com''
            @ ''/base/'' @ ''4f3a'')"
    by simp
  have u: "CHR ''/'' \<notin> set ''4f3a''" by simp
  show ?thesis
    using i u example_parse external_id_final_segment [OF i t u example_parse] by simp
qed

text \<open>
  C9. Every record that the parser produces has a \<^verbatim>\<open>g_id\<close> that is not \<^verbatim>\<open>None\<close>: it is the
  tail of the text of the entry's \<^verbatim>\<open>id\<close>, which therefore is present.
\<close>

theorem external_id_never_None:
  assumes "parse_contact_result self gc w = (w', Inr c)"
  shows "g_id c \<noteq> None
       \<and> (\<exists>i s. id_elem gc = Some i \<and> text_of i = Some s
                \<and> g_id c = Some (snd (posixpath_split s)))"
  using parse_contact_result_InrD [OF assms] by auto

theorem external_id_never_None_witness:
  "parse_contact_result example_provider example_entry fresh_world
       = (\<lparr>logged = [ShouldNotHaveMoreThanOneEmail
                      [\<lparr>address = ''work@example.com'', primary = True\<rparr>,
                       \<lparr>address = ''old@example.com'', primary = True\<rparr>]],
         fetch_calls = []\<rparr>, Inr example_contact)
   \<and> g_id example_contact \<noteq> None"
  using example_parse external_id_never_None [OF example_parse] by simp

subsection \<open>An entry without identifier in the batch\<close>

text \<open>
  C3. Let the credentials be valid and the fetch return a batch whose entry number \<open>k\<close>
  has no \<^verbatim>\<open>id\<close>, the entries before it parsing to the records \<open>cs\<close>. Then the first
  \<open>k - 1\<close> calls of \<^verbatim>\<open>next()\<close> yield \<open>cs\<close> in order; call number \<open>k\<close> adds to the log (after
  the anomaly of that entry, if any) the entry itself and raises \<^verbatim>\<open>AttributeError\<close>; and
  every later call stops, so no further record is produced.
\<close>

theorem missing_id_raises_at_its_step:
  assumes client: "get_google_client self w = (w1, Inr (Some client))"
    and batch: "GetContacts self client (build_query sft n) = Inr (pre @ gc # post)"
    and before: "list_all2 (\<lambda>x c. snd (parse_contact_result self x w) = Inr c) pre cs"
    and no_id: "id_elem gc = None"
  shows "\<exists>w'.
           fst (take_next self (length pre) (get_contacts sft (Some n)) w) = map Yield cs
         \<and> logged w'
             = logged (snd (snd (take_next self (length pre) (get_contacts sft (Some n)) w)))
               @ anomaly gc @ [SomethingIsWrongWithContact gc]
         \<and> (\<forall>m. take_next self (Suc (length pre) + m) (get_contacts sft (Some n)) w
                  = (map Yield cs @ Raise AttributeError # replicate m StopIteration,
                     Finished, w'))"
proof -
  let ?w2 = "w\<lparr>fetch_calls := fetch_calls w @ [build_query sft n]\<rparr>"
  let ?g = "get_contacts sft (Some n)"
  have g: "?g = Created sft n" by (simp add: get_contacts_def)
  have first: "gen_next self ?g w = gen_next self (Suspended (pre @ gc # post)) ?w2"
    unfolding g using gen_next_Created [OF client batch] .
  have start: "take_next self (Suc k) ?g w
                 = take_next self (Suc k) (Suspended (pre @ gc # post)) ?w2" for k
    using first by (simp del: gen_next.simps)
  obtain wk where run: "take_next self (length pre) (Suspended (pre @ gc # post)) ?w2
                          = (map Yield cs, Suspended (gc # post), wk)"
    using take_next_Suspended [OF before] by blast
  define w' where
    "w' = wk\<lparr>logged := logged wk @ anomaly gc @ [SomethingIsWrongWithContact gc]\<rparr>"
  have step: "gen_next self (Suspended (gc # post)) wk = (Raise AttributeError, Finished, w')"
    by (simp add: for_step_def parse_contact_result_no_id [OF no_id] w'_def)
  have all: "take_next self (Suc (length pre) + m) ?g w
                  = (map Yield cs @ Raise AttributeError # replicate m StopIteration,
                     Finished, w')" for m
  proof -
    have "Suc (length pre) + m = Suc (length pre + m)" by simp
    then have "take_next self (Suc (length pre) + m) ?g w
          = take_next self (length pre + Suc m) (Suspended (pre @ gc # post)) ?w2"
      using start [of "length pre + m"] by simp
    also have "\<dots> = (map Yield cs @ Raise AttributeError # replicate m StopIteration,
                     Finished, w')"
      unfolding take_next_add run
      by (simp add: step take_next_Finished del: gen_next.simps)
    finally show ?thesis .
  qed
  show ?thesis
  proof (cases pre)
    case Nil
    with before have cs: "cs = []" by simp
    from Nil run have wk: "wk = ?w2" by simp
    have "logged w' = logged w @ anomaly gc @ [SomethingIsWrongWithContact gc]"
      by (simp add: w'_def wk)
    with all Nil cs show ?thesis by (intro exI [of _ w']) simp
  next
    case (Cons x xs)
    then have "length pre = Suc (length xs)" by simp
    then have "take_next self (length pre) ?g w
                 = (map Yield cs, Suspended (gc # post), wk)"
      using start [of "length xs"] run by simp
    with all show ?thesis
      by (intro exI [of _ w']) (simp add: w'_def)
  qed
qed

theorem missing_id_raises_at_its_step_witness:
  "get_google_client example_provider fresh_world
     = (fresh_world, Inr (Some \<lparr>client_source = SOURCE_APP_NAME,
          auth_token = \<lparr>client_id = ''client-id'', client_secret = ''client-secret'',
            scope = ''https://www.google.com/m8/feeds'', user_agent = SOURCE_APP_NAME,
            access_token = ''ya29.token'', refresh_token = ''1/refresh''\<rparr>\<rparr>))
   \<and> id_elem (example_entry\<lparr>id_elem := None\<rparr>) = None
   \<and> (\<exists>w'. take_next example_provider 4 (get_contacts None (Some 0)) fresh_world
              = ([Yield example_contact, Raise AttributeError, StopIteration, StopIteration],
                 Finished, w')
          \<and> last (logged w') = SomethingIsWrongWithContact (example_entry\<lparr>id_elem := None\<rparr>))"
proof -
  let ?client = "\<lparr>client_source = SOURCE_APP_NAME,
          auth_token = \<lparr>client_id = ''client-id'', client_secret = ''client-secret'',
            scope = ''https://www.google.com/m8/feeds'', user_agent = SOURCE_APP_NAME,
            access_token = ''ya29.token'', refresh_token = ''1/refresh''\<rparr>\<rparr>"
  have c: "get_google_client example_provider fresh_world = (fresh_world, Inr (Some ?client))"
    by (simp add: get_google_client_def example_provider_def example_account_def Let_def)
  have b: "GetContacts example_provider ?client (build_query None 0)
             = Inr ([example_entry] @ example_entry\<lparr>id_elem := None\<rparr> # [example_entry])"
    by (simp add: example_provider_def)
  have p: "list_all2 (\<lambda>x c. snd (parse_contact_result example_provider x fresh_world) = Inr c)
             [example_entry] [example_contact]"
    by (simp add: example_parse)
  have n: "id_elem (example_entry\<lparr>id_elem := None\<rparr>) = None" by simp
  obtain w' where
    l: "logged w' = logged (snd (snd (take_next example_provider (length [example_entry])
                       (get_contacts None (Some 0)) fresh_world)))
            @ anomaly (example_entry\<lparr>id_elem := None\<rparr>)
            @ [SomethingIsWrongWithContact (example_entry\<lparr>id_elem := None\<rparr>)]"
    and r: "\<And>m. take_next example_provider (Suc (length [example_entry]) + m)
              (get_contacts None (Some 0)) fresh_world
            = (map Yield [example_contact] @ Raise AttributeError # replicate m StopIteration,
               Finished, w')"
    using missing_id_raises_at_its_step [OF c b p n] by blast
  have "take_next example_provider 4 (get_contacts None (Some 0)) fresh_world
              = ([Yield example_contact, Raise AttributeError, StopIteration, StopIteration],
                 Finished, w')"
    using r [of 2] by (simp add: numeral_eq_Suc del: take_next.simps)
  moreover have
    "last (logged w') = SomethingIsWrongWithContact (example_entry\<lparr>id_elem := None\<rparr>)"
    unfolding l by simp
  ultimately show ?thesis using c n by blast
qed

end
